theory Spec2Isabelle
  imports Main
begin

section \<open>Role-based access control (rbac.ts)\<close>

text \<open>
  The Prisma enum \<open>UserRole\<close> has the four values that key \<open>ROLE_PERMISSIONS\<close>;
  \<open>Permission\<close> is the TypeScript enum of rbac.ts, in the order of its declaration.
\<close>

datatype UserRole = platform_admin | tenant_owner | tenant_admin | tenant_viewer

datatype Permission =
    MANAGE_PLATFORM | MANAGE_ALL_TENANTS | IMPERSONATE_USERS | MANAGE_PLATFORM_SETTINGS
  | MANAGE_BLOG | MANAGE_CHANGELOG
  | MANAGE_TENANT | MANAGE_TENANT_USERS | MANAGE_INTEGRATIONS | MANAGE_SYNC_SETTINGS
  | MANAGE_BILLING
  | VIEW_ORDERS | VIEW_PRODUCTS | MANAGE_ORDERS | MANAGE_PRODUCTS
  | TRIGGER_SYNC | VIEW_SYNC_HISTORY | ROLLBACK_SYNC
  | VIEW_AUDIT_LOG

text \<open>The constant table \<open>ROLE_PERMISSIONS\<close>: one array per role, elements in source order.\<close>

fun ROLE_PERMISSIONS :: "UserRole \<Rightarrow> Permission list" where
  "ROLE_PERMISSIONS platform_admin =
     [MANAGE_PLATFORM, MANAGE_ALL_TENANTS, IMPERSONATE_USERS, MANAGE_PLATFORM_SETTINGS,
      MANAGE_BLOG, MANAGE_CHANGELOG, MANAGE_TENANT, MANAGE_TENANT_USERS, MANAGE_INTEGRATIONS,
      MANAGE_SYNC_SETTINGS, MANAGE_BILLING, VIEW_ORDERS, VIEW_PRODUCTS, MANAGE_ORDERS,
      MANAGE_PRODUCTS, TRIGGER_SYNC, VIEW_SYNC_HISTORY, ROLLBACK_SYNC, VIEW_AUDIT_LOG]"
| "ROLE_PERMISSIONS tenant_owner =
     [MANAGE_TENANT, MANAGE_TENANT_USERS, MANAGE_INTEGRATIONS, MANAGE_SYNC_SETTINGS,
      MANAGE_BILLING, VIEW_ORDERS, VIEW_PRODUCTS, MANAGE_ORDERS, MANAGE_PRODUCTS,
      TRIGGER_SYNC, VIEW_SYNC_HISTORY, ROLLBACK_SYNC, VIEW_AUDIT_LOG]"
| "ROLE_PERMISSIONS tenant_admin =
     [MANAGE_INTEGRATIONS, MANAGE_SYNC_SETTINGS, VIEW_ORDERS, VIEW_PRODUCTS, MANAGE_ORDERS,
      MANAGE_PRODUCTS, TRIGGER_SYNC, VIEW_SYNC_HISTORY, ROLLBACK_SYNC, VIEW_AUDIT_LOG]"
| "ROLE_PERMISSIONS tenant_viewer =
     [VIEW_ORDERS, VIEW_PRODUCTS, VIEW_SYNC_HISTORY, VIEW_AUDIT_LOG]"

text \<open>\<open>Array.prototype.includes\<close> on enum values is list membership.\<close>

definition hasPermission :: "UserRole \<Rightarrow> Permission \<Rightarrow> bool" where
  "hasPermission role permission =
     (let permissions = ROLE_PERMISSIONS role in permission \<in> set permissions)"

text \<open>\<open>some\<close> and \<open>every\<close> are \<open>list_ex\<close> and \<open>list_all\<close>.\<close>

definition hasAnyPermission :: "UserRole \<Rightarrow> Permission list \<Rightarrow> bool" where
  "hasAnyPermission role permissions = list_ex (\<lambda>permission. hasPermission role permission) permissions"

definition hasAllPermissions :: "UserRole \<Rightarrow> Permission list \<Rightarrow> bool" where
  "hasAllPermissions role permissions = list_all (\<lambda>permission. hasPermission role permission) permissions"

definition getPermissions :: "UserRole \<Rightarrow> Permission list" where
  "getPermissions role = ROLE_PERMISSIONS role"

definition canManageTenant :: "UserRole \<Rightarrow> bool" where
  "canManageTenant role = hasPermission role MANAGE_TENANT"

definition canManageUsers :: "UserRole \<Rightarrow> bool" where
  "canManageUsers role = hasPermission role MANAGE_TENANT_USERS"

definition isPlatformAdmin :: "UserRole \<Rightarrow> bool" where
  "isPlatformAdmin role = (role = platform_admin)"

definition isTenantOwner :: "UserRole \<Rightarrow> bool" where
  "isTenantOwner role = (role = tenant_owner)"

text \<open>
  \<open>canAccessTenant(userRole, userTenantId: string | null, targetTenantId: string)\<close>:
  the caller's tenant is nullable, the target is a string; \<open>===\<close> between them is
  equality of the caller's tenant with the (non-null) target.
\<close>

definition canAccessTenant :: "UserRole \<Rightarrow> string option \<Rightarrow> string \<Rightarrow> bool" where
  "canAccessTenant userRole userTenantId targetTenantId =
     (if isPlatformAdmin userRole then True
      else userTenantId = Some targetTenantId)"


section \<open>Credential verification (auth.ts, \<open>authorize\<close>)\<close>

text \<open>
  The rows that \<open>prisma.user.findUnique\<close> reads. Only the columns that \<open>authorize\<close>
  inspects or returns are kept. The Prisma schema is not part of the sources, so the two
  status columns are strings, compared with \<open>'active'\<close> as the code does.
\<close>

record Tenant =
  tenant_status :: string

record User =
  user_id :: string
  user_email :: string
  user_name :: "string option"
  user_passwordHash :: "string option"
  user_role :: UserRole
  user_status :: string
  user_tenantId :: "string option"

text \<open>The store: users by their unique email, tenants by their id.\<close>

record Database =
  user_table :: "string \<rightharpoonup> User"
  tenant_table :: "string \<rightharpoonup> Tenant"

text \<open>
  \<open>findUnique({ where: { email }, include: { tenant: true } })\<close>: the user row together
  with the tenant row its \<open>tenantId\<close> refers to; the relation is \<open>null\<close> when the
  user has no \<open>tenantId\<close>.
\<close>

definition findUnique :: "Database \<Rightarrow> string \<Rightarrow> (User \<times> Tenant option) option" where
  "findUnique db email =
     (case user_table db email of
        None \<Rightarrow> None
      | Some user \<Rightarrow>
          Some (user, case user_tenantId user of
                        None \<Rightarrow> None
                      | Some tid \<Rightarrow> tenant_table db tid))"

record Credentials =
  cred_email :: string
  cred_password :: string

record Identity =
  ident_id :: string
  ident_email :: string
  ident_name :: "string option"
  ident_role :: UserRole
  ident_tenantId :: "string option"

text \<open>\<open>throw new Error(message)\<close> is the value \<open>Inl (Error message)\<close>.\<close>

datatype error = Error string

abbreviation MissingCredentials :: error where
  "MissingCredentials \<equiv> Error ''Missing credentials''"

abbreviation InvalidCredentials :: error where
  "InvalidCredentials \<equiv> Error ''Invalid credentials''"

abbreviation AccountInactive :: error where
  "AccountInactive \<equiv> Error ''Account is not active''"

text \<open>
  \<open>authorize(credentials)\<close>. The argument may be \<open>undefined\<close>; \<open>!s\<close> on a string is
  true for the empty string, and \<open>!user.passwordHash\<close> for \<open>null\<close> and for the empty
  string. \<open>bcrypt.compare\<close> is a parameter. \<open>user.tenant?.status !== 'active'\<close> is
  true when the relation is \<open>null\<close>.
\<close>

definition authorize ::
  "(string \<Rightarrow> string \<Rightarrow> bool) \<Rightarrow> Database \<Rightarrow> Credentials option \<Rightarrow> error + Identity" where
  "authorize bcrypt_compare db credentials =
     (case credentials of
        None \<Rightarrow> Inl MissingCredentials
      | Some c \<Rightarrow>
          if cred_email c = [] \<or> cred_password c = [] then Inl MissingCredentials
          else
            (case findUnique db (cred_email c) of
               None \<Rightarrow> Inl InvalidCredentials
             | Some (user, tenant) \<Rightarrow>
                 (case user_passwordHash user of
                    None \<Rightarrow> Inl InvalidCredentials
                  | Some passwordHash \<Rightarrow>
                      if passwordHash = [] then Inl InvalidCredentials
                      else if \<not> bcrypt_compare (cred_password c) passwordHash
                        then Inl InvalidCredentials
                      else if user_status user \<noteq> ''active'' then Inl AccountInactive
                      else if user_role user \<noteq> platform_admin
                              \<and> (case tenant of
                                    None \<Rightarrow> True
                                  | Some t \<Rightarrow> tenant_status t \<noteq> ''active'')
                        then Inl AccountInactive
                      else Inr \<lparr> ident_id = user_id user,
                                 ident_email = user_email user,
                                 ident_name = user_name user,
                                 ident_role = user_role user,
                                 ident_tenantId = user_tenantId user \<rparr>)))"

text \<open>The conditions (b), (c) and (e) of the credential check, as the code tests them.\<close>

abbreviation digest_set :: "User \<Rightarrow> bool" where
  "digest_set u \<equiv> (\<exists>h. user_passwordHash u = Some h \<and> h \<noteq> [])"

abbreviation password_verifies :: "(string \<Rightarrow> string \<Rightarrow> bool) \<Rightarrow> string \<Rightarrow> User \<Rightarrow> bool" where
  "password_verifies cmp p u \<equiv> (\<exists>h. user_passwordHash u = Some h \<and> cmp p h)"

abbreviation tenant_active :: "Database \<Rightarrow> User \<Rightarrow> bool" where
  "tenant_active db u \<equiv>
     (\<exists>tid t. user_tenantId u = Some tid \<and> tenant_table db tid = Some t
              \<and> tenant_status t = ''active'')"

abbreviation identity_of :: "User \<Rightarrow> Identity" where
  "identity_of u \<equiv>
     \<lparr> ident_id = user_id u, ident_email = user_email u, ident_name = user_name u,
       ident_role = user_role u, ident_tenantId = user_tenantId u \<rparr>"

subsection \<open>A small store for concrete runs\<close>

text \<open>A stand-in for \<open>bcrypt.compare\<close>: the digest of \<open>p\<close> is \<open>''h:'' @ p\<close>.\<close>

definition example_compare :: "string \<Rightarrow> string \<Rightarrow> bool" where
  "example_compare password digest = (digest = ''h:'' @ password)"

definition alice :: User where
  "alice = \<lparr> user_id = ''u1'', user_email = ''alice@t1.se'', user_name = Some ''Alice'',
             user_passwordHash = Some ''h:Secret1'', user_role = tenant_owner,
             user_status = ''active'', user_tenantId = Some ''T1'' \<rparr>"

definition bob :: User where
  "bob = \<lparr> user_id = ''u2'', user_email = ''bob@none.se'', user_name = None,
           user_passwordHash = Some ''h:Secret2'', user_role = tenant_viewer,
           user_status = ''active'', user_tenantId = None \<rparr>"

definition carol :: User where
  "carol = \<lparr> user_id = ''u3'', user_email = ''carol@t1.se'', user_name = Some ''Carol'',
             user_passwordHash = Some ''h:Secret3'', user_role = tenant_admin,
             user_status = ''inactive'', user_tenantId = Some ''T1'' \<rparr>"

definition dave :: User where
  "dave = \<lparr> user_id = ''u4'', user_email = ''dave@t2.se'', user_name = Some ''Dave'',
            user_passwordHash = Some ''h:Secret4'', user_role = tenant_admin,
            user_status = ''active'', user_tenantId = Some ''T2'' \<rparr>"

definition erin :: User where
  "erin = \<lparr> user_id = ''u5'', user_email = ''erin@t1.se'', user_name = Some ''Erin'',
            user_passwordHash = None, user_role = tenant_viewer,
            user_status = ''active'', user_tenantId = Some ''T1'' \<rparr>"

definition root :: User where
  "root = \<lparr> user_id = ''u0'', user_email = ''root@koppling.se'', user_name = Some ''Root'',
            user_passwordHash = Some ''h:Secret0'', user_role = platform_admin,
            user_status = ''active'', user_tenantId = None \<rparr>"

definition example_db :: Database where
  "example_db =
     \<lparr> user_table = map_of
         [(''alice@t1.se'', alice), (''bob@none.se'', bob), (''carol@t1.se'', carol),
          (''dave@t2.se'', dave), (''erin@t1.se'', erin), (''root@koppling.se'', root)],
       tenant_table = map_of
         [(''T1'', \<lparr> tenant_status = ''active'' \<rparr>),
          (''T2'', \<lparr> tenant_status = ''suspended'' \<rparr>)] \<rparr>"


section \<open>Route enforcement (middleware.ts)\<close>

text \<open>\<open>s.startsWith(searchString)\<close>: the search string is a prefix of \<open>s\<close>.\<close>

definition startsWith :: "string \<Rightarrow> string \<Rightarrow> bool" where
  "startsWith s searchString = (take (length searchString) s = searchString)"

definition PUBLIC_ROUTES :: "string list" where
  "PUBLIC_ROUTES =
     [''/'', ''/auth/signin'', ''/auth/signup'', ''/auth/error'', ''/blog'', ''/changelog'',
      ''/api/auth'']"

definition ADMIN_ROUTES :: "string list" where
  "ADMIN_ROUTES = [''/admin'']"

definition isPublicRoute :: "string \<Rightarrow> bool" where
  "isPublicRoute pathname = list_ex (\<lambda>route. startsWith pathname route) PUBLIC_ROUTES"

definition isAdminRoute :: "string \<Rightarrow> bool" where
  "isAdminRoute pathname = list_ex (\<lambda>route. startsWith pathname route) ADMIN_ROUTES"

text \<open>
  The decoded session token \<open>req.nextauth.token\<close> with the three fields that auth.ts adds
  to the \<open>JWT\<close> interface; a request without a valid session has no token (\<open>null\<close>).
\<close>

record JWT =
  jwt_id :: string
  jwt_role :: UserRole
  jwt_tenantId :: "string option"

text \<open>The string value of a role, as \<open>requestHeaders.set('x-user-role', token.role)\<close> writes it.\<close>

fun role_string :: "UserRole \<Rightarrow> string" where
  "role_string platform_admin = ''platform_admin''"
| "role_string tenant_owner = ''tenant_owner''"
| "role_string tenant_admin = ''tenant_admin''"
| "role_string tenant_viewer = ''tenant_viewer''"

text \<open>
  A \<open>Headers\<close> object: at most one value per (lower-case) name; \<open>set\<close> replaces the value
  of a name, and \<open>new Headers(req.headers)\<close> copies every header of the request.
\<close>

type_synonym headers = "string \<rightharpoonup> string"

text \<open>
  What the middleware returns: \<open>NextResponse.next()\<close>, \<open>NextResponse.next\<close> with a new
  set of request headers, or a redirect to a path with query parameters.
\<close>

datatype response =
    Next
  | NextWithRequestHeaders headers
  | Redirect string "(string \<times> string) list"

text \<open>
  The function \<open>middleware(req)\<close>, on the token, the path and the headers of the request.
  \<open>if (token.tenantId)\<close> and \<open>!token.tenantId\<close> test for a non-null, non-empty string.
\<close>

definition middleware :: "JWT option \<Rightarrow> string \<Rightarrow> headers \<Rightarrow> response" where
  "middleware token pathname req_headers =
     (if isPublicRoute pathname then Next
      else
        (case token of
           None \<Rightarrow> Redirect ''/auth/signin'' [(''callbackUrl'', pathname)]
         | Some t \<Rightarrow>
             if isAdminRoute pathname \<and> jwt_role t \<noteq> platform_admin
               then Redirect ''/dashboard'' []
             else if (startsWith pathname ''/dashboard'' \<or> startsWith pathname ''/tenant'')
                     \<and> jwt_role t \<noteq> platform_admin
                     \<and> (case jwt_tenantId t of None \<Rightarrow> True | Some tid \<Rightarrow> tid = [])
               then Redirect ''/auth/error'' [(''error'', ''AccessDenied'')]
             else
               (let requestHeaders = req_headers;
                    requestHeaders =
                      (case jwt_tenantId t of
                         None \<Rightarrow> requestHeaders
                       | Some tid \<Rightarrow>
                           if tid = [] then requestHeaders
                           else requestHeaders(''x-tenant-id'' \<mapsto> tid));
                    requestHeaders = requestHeaders(''x-user-id'' \<mapsto> jwt_id t);
                    requestHeaders = requestHeaders(''x-user-role'' \<mapsto> role_string (jwt_role t))
                in NextWithRequestHeaders requestHeaders)))"

text \<open>The callback \<open>authorized: ({ token }) => !!token\<close>.\<close>

definition authorized :: "JWT option \<Rightarrow> bool" where
  "authorized token = (token \<noteq> None)"

text \<open>
  The default export is \<open>withAuth(middleware, { callbacks: { authorized } })\<close>. \<open>withAuth\<close>
  is the wrapper of the next-auth library: it decodes the session token, asks the
  \<open>authorized\<close> callback, and calls the wrapped function only when the callback returns
  true; otherwise it redirects to the library's sign-in page (no \<open>pages\<close> option is
  passed here, so \<open>/api/auth/signin\<close>) with the requested path as \<open>callbackUrl\<close>. The
  model covers the requests that \<open>config.matcher\<close> selects and that are outside the
  library's own exemptions (its \<open>/api/auth\<close> routes, \<open>/_next\<close>, \<open>/favicon.ico\<close>).
\<close>

definition withAuth ::
  "(JWT option \<Rightarrow> string \<Rightarrow> headers \<Rightarrow> response) \<Rightarrow> (JWT option \<Rightarrow> bool)
     \<Rightarrow> JWT option \<Rightarrow> string \<Rightarrow> headers \<Rightarrow> response" where
  "withAuth wrapped callback token pathname req_headers =
     (if callback token then wrapped token pathname req_headers
      else Redirect ''/api/auth/signin'' [(''callbackUrl'', pathname)])"

definition exported_middleware :: "JWT option \<Rightarrow> string \<Rightarrow> headers \<Rightarrow> response" where
  "exported_middleware = withAuth middleware authorized"

text \<open>
  The headers the route handler receives: the request's own after \<open>NextResponse.next()\<close>,
  the replaced set after \<open>NextResponse.next({ request: { headers } })\<close>, none after a
  redirect (the handler does not run).
\<close>

fun forwarded_headers :: "headers \<Rightarrow> response \<Rightarrow> headers option" where
  "forwarded_headers req_headers Next = Some req_headers"
| "forwarded_headers req_headers (NextWithRequestHeaders hs) = Some hs"
| "forwarded_headers req_headers (Redirect url params) = None"

subsection \<open>Concrete requests\<close>

text \<open>
  The \<open>jwt\<close> callback of auth.ts: at sign-in (\<open>user\<close> present) the token takes
  \<open>id\<close>, \<open>role\<close> and \<open>tenantId\<close> from what \<open>authorize\<close> returned; later calls leave
  the token as it is.
\<close>

definition jwt_callback :: "JWT \<Rightarrow> Identity option \<Rightarrow> JWT" where
  "jwt_callback token user =
     (case user of
        None \<Rightarrow> token
      | Some u \<Rightarrow> token \<lparr> jwt_id := ident_id u, jwt_role := ident_role u,
                            jwt_tenantId := ident_tenantId u \<rparr>)"

text \<open>The tokens that the sign-ins of alice and of root produce.\<close>

definition alice_token :: JWT where
  "alice_token = \<lparr> jwt_id = ''u1'', jwt_role = tenant_owner, jwt_tenantId = Some ''T1'' \<rparr>"

definition root_token :: JWT where
  "root_token = \<lparr> jwt_id = ''u0'', jwt_role = platform_admin, jwt_tenantId = None \<rparr>"

definition viewer_without_tenant :: JWT where
  "viewer_without_tenant = \<lparr> jwt_id = ''u2'', jwt_role = tenant_viewer, jwt_tenantId = None \<rparr>"

definition admin_of_T1 :: JWT where
  "admin_of_T1 = \<lparr> jwt_id = ''u3'', jwt_role = tenant_admin, jwt_tenantId = Some ''T1'' \<rparr>"

definition no_headers :: headers where
  "no_headers = Map.empty"

definition spoofed_headers :: headers where
  "spoofed_headers =
     [''x-user-id'' \<mapsto> ''u0'', ''x-tenant-id'' \<mapsto> ''T2'', ''x-user-role'' \<mapsto> ''platform_admin'']"


section \<open>Session lifetime (auth.ts, \<open>authOptions.session\<close>)\<close>

text \<open>\<open>maxAge: 30 * 24 * 60 * 60\<close>, in seconds.\<close>

definition session_maxAge :: int where
  "session_maxAge = 30 * 24 * 60 * 60"

text \<open>
  Modelled from the spec: the claims a session token carries. Issuing and reading the
  token are done by the next-auth library (\<open>strategy: 'jwt'\<close>), whose code is not among
  the sources; only the lifetime constant above is. The specification of the Session
  Issuer/Reader says the token carries \<open>{accountId, role, tenantId, issuedAt}\<close> and is
  signed. Times are seconds.
\<close>

record Claims =
  claim_accountId :: string
  claim_role :: UserRole
  claim_tenantId :: "string option"
  claim_issuedAt :: int

record SessionToken =
  token_claims :: Claims
  token_signature :: string

datatype TokenError = InvalidToken | TokenExpired

text \<open>
  Modelled from the spec: \<open>issue(identity)\<close>, missing from the sources (next-auth
  library). It embeds \<open>{accountId, role, tenantId, issuedAt}\<close> and signs with the
  process-wide secret; the absolute expiry is \<open>issuedAt\<close> plus the lifetime. The signing
  primitive is a parameter.
\<close>

definition issue :: "(string \<Rightarrow> Claims \<Rightarrow> string) \<Rightarrow> string \<Rightarrow> Identity \<Rightarrow> int \<Rightarrow> SessionToken" where
  "issue sign secret identity now =
     (let claims = \<lparr> claim_accountId = ident_id identity, claim_role = ident_role identity,
                      claim_tenantId = ident_tenantId identity, claim_issuedAt = now \<rparr>
      in \<lparr> token_claims = claims, token_signature = sign secret claims \<rparr>)"

text \<open>
  Modelled from the spec: \<open>read(token)\<close>, missing from the sources (next-auth library).
  It verifies the signature, failing with \<open>InvalidToken\<close>, and checks
  \<open>now < issuedAt + 30d\<close>, failing with \<open>TokenExpired\<close>; the lifetime is the source's
  \<open>maxAge\<close>. The claims are returned as they are; nothing is written back.
\<close>

definition read_token ::
  "(string \<Rightarrow> Claims \<Rightarrow> string) \<Rightarrow> string \<Rightarrow> SessionToken \<Rightarrow> int \<Rightarrow> TokenError + Claims" where
  "read_token sign secret token now =
     (if token_signature token \<noteq> sign secret (token_claims token) then Inl InvalidToken
      else if now < claim_issuedAt (token_claims token) + session_maxAge
        then Inr (token_claims token)
      else Inl TokenExpired)"

definition example_sign :: "string \<Rightarrow> Claims \<Rightarrow> string" where
  "example_sign secret claims = secret @ '':'' @ claim_accountId claims"


section \<open>Properties of the permission registry and the isolation guard\<close>

text \<open>
  C1. Tenant isolation guard: a \<open>platform_admin\<close> may access every target tenant whatever
  its own tenant is (also with no tenant of its own); every other role may access a
  target exactly when its own tenant is that target, and never when it has no tenant.
\<close>

theorem canAccessTenant_spec:
  "canAccessTenant platform_admin caller target
   \<and> (role \<noteq> platform_admin \<longrightarrow>
        canAccessTenant role caller target = (caller = Some target))
   \<and> (role \<noteq> platform_admin \<longrightarrow> \<not> canAccessTenant role None target)"
  by (simp add: canAccessTenant_def isPlatformAdmin_def)

theorem canAccessTenant_spec_witness:
  "canAccessTenant platform_admin None ''T2''
   \<and> tenant_viewer \<noteq> platform_admin
   \<and> canAccessTenant tenant_viewer (Some ''T1'') ''T1''
   \<and> \<not> canAccessTenant tenant_viewer (Some ''T1'') ''T2''
   \<and> \<not> canAccessTenant tenant_viewer None ''T2''"
  using canAccessTenant_spec [of None "''T2''" tenant_viewer]
        canAccessTenant_spec [of "Some ''T1''" "''T1''" tenant_viewer]
        canAccessTenant_spec [of "Some ''T1''" "''T2''" tenant_viewer]
  by simp

lemma owner_minus_admin:
  "set (getPermissions tenant_owner) - set (getPermissions tenant_admin)
     = {MANAGE_TENANT, MANAGE_TENANT_USERS, MANAGE_BILLING}"
  by (auto simp: getPermissions_def)

text \<open>
  C4. Nesting of the permission sets: viewer within admin within platform admin, admin
  within owner within platform admin, and the owner holds \<open>MANAGE_TENANT_USERS\<close> and
  \<open>MANAGE_BILLING\<close>, which the tenant admin does not.
\<close>

theorem permissions_nested:
  "set (getPermissions tenant_viewer) \<subseteq> set (getPermissions tenant_admin)
   \<and> set (getPermissions tenant_admin) \<subseteq> set (getPermissions platform_admin)
   \<and> set (getPermissions tenant_admin) \<subseteq> set (getPermissions tenant_owner)
   \<and> set (getPermissions tenant_owner) \<subseteq> set (getPermissions platform_admin)
   \<and> {MANAGE_TENANT_USERS, MANAGE_BILLING}
        \<subseteq> set (getPermissions tenant_owner) - set (getPermissions tenant_admin)"
  by (simp add: getPermissions_def)

text \<open>
  C10. \<open>hasAnyPermission\<close> holds exactly when some listed permission belongs to the role,
  \<open>hasAllPermissions\<close> exactly when every listed permission does; on the empty list the
  first is false and the second is true, for every role.
\<close>

theorem hasAny_hasAll_spec:
  "hasAnyPermission role ps = (\<exists>p \<in> set ps. p \<in> set (getPermissions role))
   \<and> hasAllPermissions role ps = (\<forall>p \<in> set ps. p \<in> set (getPermissions role))
   \<and> \<not> hasAnyPermission role []
   \<and> hasAllPermissions role []"
  by (simp add: hasAnyPermission_def hasAllPermissions_def hasPermission_def
        getPermissions_def list_ex_iff list_all_iff)

theorem hasAny_hasAll_spec_witness:
  "hasAnyPermission tenant_viewer [MANAGE_BILLING, VIEW_ORDERS]
   \<and> \<not> hasAllPermissions tenant_viewer [MANAGE_BILLING, VIEW_ORDERS]
   \<and> hasAllPermissions tenant_owner [MANAGE_BILLING, VIEW_ORDERS]
   \<and> \<not> hasAnyPermission tenant_admin [MANAGE_BILLING, MANAGE_TENANT_USERS]
   \<and> \<not> hasAnyPermission platform_admin [] \<and> hasAllPermissions platform_admin []"
  using hasAny_hasAll_spec [of tenant_viewer "[MANAGE_BILLING, VIEW_ORDERS]"]
        hasAny_hasAll_spec [of tenant_owner "[MANAGE_BILLING, VIEW_ORDERS]"]
        hasAny_hasAll_spec [of tenant_admin "[MANAGE_BILLING, MANAGE_TENANT_USERS]"]
        hasAny_hasAll_spec [of platform_admin "[]"]
  by (simp add: getPermissions_def)

section \<open>Properties of the credential check\<close>

lemma authorize_no_credentials: "authorize cmp db None = Inl MissingCredentials"
  by (simp add: authorize_def)

text \<open>
  C5, as the code has it. An empty email or an empty password is rejected first, with
  \<open>Missing credentials\<close>, before any lookup. For a non-empty email and password the
  checks run in the order (a) the account exists, (b) it has a password digest,
  (c) the password verifies, (d) the account is active, (e) for a role other than
  \<open>platform_admin\<close> the account's tenant is active; a failure of (a), (b) or (c) gives
  \<open>Invalid credentials\<close> whatever the later conditions are, a failure of (d) or (e)
  gives \<open>Account is not active\<close>, and otherwise the identity
  \<open>{id, email, name, role, tenantId}\<close> of the account is returned.
\<close>

theorem authorize_order:
  "(e = [] \<or> p = [] \<longrightarrow>
      authorize cmp db (Some \<lparr>cred_email = e, cred_password = p\<rparr>) = Inl MissingCredentials)
   \<and> (e \<noteq> [] \<and> p \<noteq> [] \<longrightarrow>
      (user_table db e = None \<longrightarrow>
         authorize cmp db (Some \<lparr>cred_email = e, cred_password = p\<rparr>) = Inl InvalidCredentials)
      \<and> (\<forall>u. user_table db e = Some u \<and> \<not> digest_set u \<longrightarrow>
         authorize cmp db (Some \<lparr>cred_email = e, cred_password = p\<rparr>) = Inl InvalidCredentials)
      \<and> (\<forall>u. user_table db e = Some u \<and> digest_set u \<and> \<not> password_verifies cmp p u \<longrightarrow>
         authorize cmp db (Some \<lparr>cred_email = e, cred_password = p\<rparr>) = Inl InvalidCredentials)
      \<and> (\<forall>u. user_table db e = Some u \<and> digest_set u \<and> password_verifies cmp p u
             \<and> user_status u \<noteq> ''active'' \<longrightarrow>
         authorize cmp db (Some \<lparr>cred_email = e, cred_password = p\<rparr>) = Inl AccountInactive)
      \<and> (\<forall>u. user_table db e = Some u \<and> digest_set u \<and> password_verifies cmp p u
             \<and> user_status u = ''active''
             \<and> user_role u \<noteq> platform_admin \<and> \<not> tenant_active db u \<longrightarrow>
         authorize cmp db (Some \<lparr>cred_email = e, cred_password = p\<rparr>) = Inl AccountInactive)
      \<and> (\<forall>u. user_table db e = Some u \<and> digest_set u \<and> password_verifies cmp p u
             \<and> user_status u = ''active''
             \<and> (user_role u = platform_admin \<or> tenant_active db u) \<longrightarrow>
         authorize cmp db (Some \<lparr>cred_email = e, cred_password = p\<rparr>) = Inr (identity_of u)))"
  by (auto simp: authorize_def findUnique_def split: option.splits)

text \<open>
  Runs on the example store: an unknown email, an account without digest, a wrong
  password on an inactive account (still \<open>Invalid credentials\<close>), the right password on
  the inactive account, an active account of a suspended tenant, two successful sign-ins,
  and an empty password.
\<close>

theorem authorize_order_witness:
  "authorize example_compare example_db
      (Some \<lparr>cred_email = ''nobody@x.se'', cred_password = ''guess''\<rparr>) = Inl InvalidCredentials
   \<and> authorize example_compare example_db
      (Some \<lparr>cred_email = ''erin@t1.se'', cred_password = ''guess''\<rparr>) = Inl InvalidCredentials
   \<and> authorize example_compare example_db
      (Some \<lparr>cred_email = ''carol@t1.se'', cred_password = ''guess''\<rparr>) = Inl InvalidCredentials
   \<and> authorize example_compare example_db
      (Some \<lparr>cred_email = ''carol@t1.se'', cred_password = ''Secret3''\<rparr>) = Inl AccountInactive
   \<and> authorize example_compare example_db
      (Some \<lparr>cred_email = ''dave@t2.se'', cred_password = ''Secret4''\<rparr>) = Inl AccountInactive
   \<and> authorize example_compare example_db
      (Some \<lparr>cred_email = ''alice@t1.se'', cred_password = ''Secret1''\<rparr>) = Inr (identity_of alice)
   \<and> authorize example_compare example_db
      (Some \<lparr>cred_email = ''root@koppling.se'', cred_password = ''Secret0''\<rparr>) = Inr (identity_of root)
   \<and> authorize example_compare example_db
      (Some \<lparr>cred_email = ''alice@t1.se'', cred_password = ''''\<rparr>) = Inl MissingCredentials"
  using authorize_order [of "''nobody@x.se''" "''guess''" example_compare example_db]
        authorize_order [of "''erin@t1.se''" "''guess''" example_compare example_db]
        authorize_order [of "''carol@t1.se''" "''guess''" example_compare example_db]
        authorize_order [of "''carol@t1.se''" "''Secret3''" example_compare example_db]
        authorize_order [of "''dave@t2.se''" "''Secret4''" example_compare example_db]
        authorize_order [of "''alice@t1.se''" "''Secret1''" example_compare example_db]
        authorize_order [of "''root@koppling.se''" "''Secret0''" example_compare example_db]
        authorize_order [of "''alice@t1.se''" "''''" example_compare example_db]
  by (simp add: example_db_def alice_def carol_def dave_def erin_def root_def
        example_compare_def)

text \<open>
  C5 as stated fails: with an unknown email, condition (a) is not met, yet with an empty
  password the result is \<open>Missing credentials\<close>, not \<open>Invalid credentials\<close>.
\<close>

theorem authorize_missing_counterexample:
  "user_table example_db ''nobody@x.se'' = None
   \<and> authorize example_compare example_db
        (Some \<lparr>cred_email = ''nobody@x.se'', cred_password = ''''\<rparr>) = Inl MissingCredentials
   \<and> MissingCredentials \<noteq> InvalidCredentials"
  by (simp add: authorize_def example_db_def)

text \<open>
  C6, as the code has it. For every store, a sign-in with an unknown email and a sign-in
  with a known email and a password that does not verify give the same result, the error
  \<open>Invalid credentials\<close>, provided the email and the password are non-empty in both runs.
\<close>

theorem invalid_credentials_indistinguishable:
  assumes "e1 \<noteq> []" and "p1 \<noteq> []" and "e2 \<noteq> []" and "p2 \<noteq> []"
    and "user_table db e1 = None"
    and "user_table db e2 = Some u"
    and "\<not> password_verifies cmp p2 u"
  shows "authorize cmp db (Some \<lparr>cred_email = e1, cred_password = p1\<rparr>)
           = authorize cmp db (Some \<lparr>cred_email = e2, cred_password = p2\<rparr>)
         \<and> authorize cmp db (Some \<lparr>cred_email = e1, cred_password = p1\<rparr>)
           = Inl InvalidCredentials"
  using assms
  by (auto simp: authorize_def findUnique_def split: option.splits)

theorem invalid_credentials_indistinguishable_witness:
  "authorize example_compare example_db
      (Some \<lparr>cred_email = ''nobody@x.se'', cred_password = ''guess''\<rparr>)
   = authorize example_compare example_db
      (Some \<lparr>cred_email = ''alice@t1.se'', cred_password = ''guess''\<rparr>)
   \<and> authorize example_compare example_db
      (Some \<lparr>cred_email = ''nobody@x.se'', cred_password = ''guess''\<rparr>) = Inl InvalidCredentials"
proof -
  have unknown: "user_table example_db ''nobody@x.se'' = None"
    by (simp add: example_db_def)
  have known: "user_table example_db ''alice@t1.se'' = Some alice"
    by (simp add: example_db_def)
  have wrong: "\<not> password_verifies example_compare ''guess'' alice"
    by (simp add: alice_def example_compare_def)
  show ?thesis
    using invalid_credentials_indistinguishable
            [of "''nobody@x.se''" "''guess''" "''alice@t1.se''" "''guess''" example_db alice
                example_compare]
          unknown known wrong
    by fastforce
qed

text \<open>
  C6 as stated fails: a sign-in with an unknown email and an empty password ends with
  \<open>Missing credentials\<close>, while a sign-in as alice with a wrong password ends with
  \<open>Invalid credentials\<close>.
\<close>

theorem missing_vs_invalid_counterexample:
  "user_table example_db ''nobody@x.se'' = None
   \<and> user_table example_db ''alice@t1.se'' = Some alice
   \<and> user_passwordHash alice = Some ''h:Secret1''
   \<and> \<not> example_compare ''guess'' ''h:Secret1''
   \<and> authorize example_compare example_db
        (Some \<lparr>cred_email = ''nobody@x.se'', cred_password = []\<rparr>) = Inl MissingCredentials
   \<and> authorize example_compare example_db
        (Some \<lparr>cred_email = ''alice@t1.se'', cred_password = ''guess''\<rparr>) = Inl InvalidCredentials
   \<and> MissingCredentials \<noteq> InvalidCredentials"
  by (simp add: authorize_def findUnique_def example_db_def alice_def example_compare_def)

text \<open>
  C7, as the code has it. An active account with a digest, the right (non-empty) password,
  a role other than \<open>platform_admin\<close> and no tenant is refused with
  \<open>Account is not active\<close>: the tenant check counts a missing tenant as not active.
\<close>

theorem tenantless_account_rejected:
  assumes "e \<noteq> []" and "p \<noteq> []"
    and "user_table db e = Some u"
    and "user_passwordHash u = Some h" and "h \<noteq> []" and "cmp p h"
    and "user_status u = ''active''"
    and "user_role u \<noteq> platform_admin"
    and "user_tenantId u = None"
  shows "authorize cmp db (Some \<lparr>cred_email = e, cred_password = p\<rparr>) = Inl AccountInactive"
  using assms
  by (simp add: authorize_def findUnique_def)

theorem tenantless_account_rejected_witness:
  "authorize example_compare example_db
      (Some \<lparr>cred_email = ''bob@none.se'', cred_password = ''Secret2''\<rparr>) = Inl AccountInactive"
proof -
  have row: "user_table example_db ''bob@none.se'' = Some bob"
    by (simp add: example_db_def)
  have digest: "user_passwordHash bob = Some ''h:Secret2''"
    and active: "user_status bob = ''active''"
    and role: "user_role bob \<noteq> platform_admin"
    and tenantless: "user_tenantId bob = None"
    by (simp_all add: bob_def)
  have correct: "example_compare ''Secret2'' ''h:Secret2''"
    by (simp add: example_compare_def)
  show ?thesis
    using tenantless_account_rejected
            [of "''bob@none.se''" "''Secret2''" example_db bob "''h:Secret2''" example_compare]
          row digest correct active role tenantless
    by simp
qed

text \<open>
  C7 as stated fails: bob is active, a \<open>tenant_viewer\<close> without tenant, and signs in with
  his password; the result is the error \<open>Account is not active\<close>.
\<close>

theorem tenantless_viewer_counterexample:
  "user_table example_db ''bob@none.se'' = Some bob
   \<and> user_status bob = ''active''
   \<and> user_role bob = tenant_viewer
   \<and> user_tenantId bob = None
   \<and> user_passwordHash bob = Some ''h:Secret2''
   \<and> example_compare ''Secret2'' ''h:Secret2''
   \<and> authorize example_compare example_db
        (Some \<lparr>cred_email = ''bob@none.se'', cred_password = ''Secret2''\<rparr>) = Inl AccountInactive"
  by (simp add: authorize_def findUnique_def example_db_def bob_def example_compare_def)


section \<open>Properties of the route enforcement\<close>

text \<open>
  \<open>'/'\<close> is one of \<open>PUBLIC_ROUTES\<close> and routes are matched by prefix, so every path that
  begins with a slash is a public route, and \<open>middleware\<close> returns at its first check.
\<close>

lemma isPublicRoute_absolute: "isPublicRoute (CHR ''/'' # rest)"
  by (simp add: isPublicRoute_def PUBLIC_ROUTES_def startsWith_def)

lemma middleware_public: "isPublicRoute pathname \<Longrightarrow> middleware token pathname hs = Next"
  by (simp add: middleware_def)

lemma middleware_absolute: "middleware token (CHR ''/'' # rest) hs = Next"
  by (simp add: middleware_public isPublicRoute_absolute)

lemma exported_absolute:
  "exported_middleware token (CHR ''/'' # rest) hs =
     (case token of
        None \<Rightarrow> Redirect ''/api/auth/signin'' [(''callbackUrl'', CHR ''/'' # rest)]
      | Some t \<Rightarrow> Next)"
  by (simp add: exported_middleware_def withAuth_def authorized_def middleware_absolute
           split: option.splits)

text \<open>
  The header block of \<open>middleware\<close> is behind the public-route check, so no path that
  begins with a slash reaches it. Where it is reached, \<open>x-user-id\<close> and \<open>x-user-role\<close>
  are always set from the token, and \<open>x-tenant-id\<close> is left as the client sent it when
  the token has no tenant.
\<close>

lemma identity_headers_overwritten:
  assumes "middleware (Some t) pathname hs = NextWithRequestHeaders hs'"
  shows "hs' ''x-user-id'' = Some (jwt_id t)
       \<and> hs' ''x-user-role'' = Some (role_string (jwt_role t))"
  using assms by (auto simp: middleware_def Let_def split: if_splits option.splits)

lemma tenant_header_kept:
  assumes "middleware (Some t) pathname hs = NextWithRequestHeaders hs'"
    and "jwt_tenantId t = None"
  shows "hs' ''x-tenant-id'' = hs ''x-tenant-id''"
  using assms by (auto simp: middleware_def Let_def split: if_splits option.splits)

text \<open>
  C2 at a request for the public route \<open>/blog\<close> that carries no session token: the
  function \<open>middleware\<close> would let it through, but the \<open>authorized\<close> callback of the
  exported middleware is false without a token, so the request is redirected to sign-in
  before the public-route check is reached.
\<close>

theorem public_route_without_token_redirected:
  "isPublicRoute ''/blog''
   \<and> middleware None ''/blog'' no_headers = Next
   \<and> authorized None = False
   \<and> exported_middleware None ''/blog'' no_headers
       = Redirect ''/api/auth/signin'' [(''callbackUrl'', ''/blog'')]"
  by (simp add: exported_middleware_def withAuth_def authorized_def middleware_def
        isPublicRoute_def PUBLIC_ROUTES_def startsWith_def)

text \<open>
  C3 at requests for \<open>/api/example\<close> whose client sent its own \<open>x-user-id\<close>,
  \<open>x-tenant-id\<close> and \<open>x-user-role\<close>, once with the session token that the sign-in of
  alice (an active \<open>tenant_owner\<close> of the active tenant \<open>T1\<close>) produces and once with the
  token of root (a \<open>platform_admin\<close>, no tenant): the path begins with a slash, the
  middleware returns \<open>NextResponse.next()\<close> without touching the headers, and the handler
  receives the three client-supplied values. For alice none of them is the token's; for
  root, whose token has no tenant, the client's \<open>x-tenant-id\<close> comes through.
\<close>

theorem client_headers_survive:
  "authorize example_compare example_db
      (Some \<lparr>cred_email = ''alice@t1.se'', cred_password = ''Secret1''\<rparr>) = Inr (identity_of alice)
   \<and> jwt_callback t (Some (identity_of alice)) = alice_token
   \<and> jwt_id alice_token = ''u1''
   \<and> jwt_tenantId alice_token = Some ''T1''
   \<and> jwt_role alice_token = tenant_owner
   \<and> spoofed_headers ''x-user-id'' = Some ''u0''
   \<and> spoofed_headers ''x-tenant-id'' = Some ''T2''
   \<and> spoofed_headers ''x-user-role'' = Some ''platform_admin''
   \<and> middleware (Some alice_token) ''/api/example'' spoofed_headers = Next
   \<and> forwarded_headers spoofed_headers
        (middleware (Some alice_token) ''/api/example'' spoofed_headers) = Some spoofed_headers
   \<and> authorize example_compare example_db
      (Some \<lparr>cred_email = ''root@koppling.se'', cred_password = ''Secret0''\<rparr>) = Inr (identity_of root)
   \<and> jwt_callback t (Some (identity_of root)) = root_token
   \<and> jwt_tenantId root_token = None
   \<and> middleware (Some root_token) ''/api/example'' spoofed_headers = Next
   \<and> forwarded_headers spoofed_headers
        (middleware (Some root_token) ''/api/example'' spoofed_headers) = Some spoofed_headers"
  by (simp add: authorize_def findUnique_def example_db_def alice_def root_def
        example_compare_def jwt_callback_def alice_token_def root_token_def
        middleware_def isPublicRoute_def PUBLIC_ROUTES_def startsWith_def spoofed_headers_def)

text \<open>
  C8 at a request for \<open>/admin/tenants\<close> by a signed-in \<open>tenant_admin\<close>, and at a request
  for \<open>/dashboard\<close> by a signed-in viewer without tenant: both paths begin with a slash,
  so both requests are let through and neither redirect happens.
\<close>

theorem admin_route_not_gated:
  "isAdminRoute ''/admin/tenants''
   \<and> jwt_role admin_of_T1 = tenant_admin
   \<and> middleware (Some admin_of_T1) ''/admin/tenants'' no_headers = Next
   \<and> startsWith ''/dashboard'' ''/dashboard''
   \<and> jwt_role viewer_without_tenant = tenant_viewer
   \<and> jwt_tenantId viewer_without_tenant = None
   \<and> middleware (Some viewer_without_tenant) ''/dashboard'' no_headers = Next"
  by (simp add: middleware_def isPublicRoute_def isAdminRoute_def PUBLIC_ROUTES_def
        ADMIN_ROUTES_def startsWith_def viewer_without_tenant_def admin_of_T1_def)


section \<open>Properties of the session lifetime\<close>

text \<open>
  C9. A token issued at \<open>t0\<close> is read successfully at every time before \<open>t0\<close> plus thirty
  days and fails with \<open>TokenExpired\<close> at every time after it; the claims it returns still
  carry \<open>t0\<close>, so reading does not move the expiry. In particular it is read at
  \<open>t0 + 29d23h\<close> and has expired at \<open>t0 + 30d1s\<close>.
\<close>

theorem token_lifetime:
  "(now < t0 + 30 * 24 * 60 * 60 \<longrightarrow>
      read_token sign secret (issue sign secret identity t0) now
        = Inr \<lparr> claim_accountId = ident_id identity, claim_role = ident_role identity,
                claim_tenantId = ident_tenantId identity, claim_issuedAt = t0 \<rparr>)
   \<and> (t0 + 30 * 24 * 60 * 60 < now \<longrightarrow>
      read_token sign secret (issue sign secret identity t0) now = Inl TokenExpired)
   \<and> read_token sign secret (issue sign secret identity t0)
        (t0 + (29 * 24 * 60 * 60 + 23 * 60 * 60))
        = Inr \<lparr> claim_accountId = ident_id identity, claim_role = ident_role identity,
                claim_tenantId = ident_tenantId identity, claim_issuedAt = t0 \<rparr>
   \<and> read_token sign secret (issue sign secret identity t0) (t0 + (30 * 24 * 60 * 60 + 1))
        = Inl TokenExpired"
  by (simp add: read_token_def issue_def session_maxAge_def Let_def)

theorem token_lifetime_witness:
  "read_token example_sign ''s3cret'' (issue example_sign ''s3cret'' (identity_of alice) 1000) 2000
     = Inr \<lparr> claim_accountId = ''u1'', claim_role = tenant_owner,
             claim_tenantId = Some ''T1'', claim_issuedAt = 1000 \<rparr>
   \<and> read_token example_sign ''s3cret'' (issue example_sign ''s3cret'' (identity_of alice) 1000)
        2593001 = Inl TokenExpired"
  using token_lifetime [of 2000 1000 example_sign "''s3cret''" "identity_of alice"]
        token_lifetime [of 2593001 1000 example_sign "''s3cret''" "identity_of alice"]
  by (simp add: alice_def)

end
